theory Spec2Isabelle
  imports Complex_Main "HOL-Library.Char_ord" "HOL-Library.List_Lexorder" "HOL-Library.AList"
begin

section \<open>Numbers and their byte rendering\<close>

text \<open>
  The chaincode keeps a balance on the ledger as the bytes of \<^verbatim>\<open>amount.toString()\<close> and
  reads it back with \<^verbatim>\<open>Number(bytes)\<close>. A JavaScript number is modelled as an exact
  integer or \<open>NaN\<close>: fractions, infinities and the rounding of magnitudes above \<open>2^53\<close>
  are outside the model.
\<close>

datatype number = Num int | NaN

definition digitChar :: "nat \<Rightarrow> char" where
  "digitChar d = char_of (48 + d)"

definition isDigit :: "char \<Rightarrow> bool" where
  "isDigit c = (48 \<le> (of_char c :: nat) \<and> (of_char c :: nat) \<le> 57)"

definition digitValue :: "char \<Rightarrow> nat" where
  "digitValue c = of_char c - 48"

fun decimal :: "nat \<Rightarrow> string" where
  "decimal n = (if n < 10 then [digitChar n] else decimal (n div 10) @ [digitChar (n mod 10)])"

declare decimal.simps [simp del]

text \<open>\<^verbatim>\<open>Number.prototype.toString()\<close>: decimal digits, a leading minus sign below zero.\<close>

fun toString :: "number \<Rightarrow> string" where
  "toString (Num n) = (if n < 0 then CHR ''-'' # decimal (nat (- n)) else decimal (nat n))"
| "toString NaN = ''NaN''"

definition isDecimal :: "string \<Rightarrow> bool" where
  "isDecimal s = (s \<noteq> [] \<and> list_all isDigit s)"

definition digitsValue :: "string \<Rightarrow> nat" where
  "digitsValue s = foldl (\<lambda>a c. 10 * a + digitValue c) 0 s"

text \<open>
  \<^verbatim>\<open>Number(bytes)\<close> on the text of the bytes: the empty text is \<open>0\<close>, a decimal integer
  literal with an optional minus sign is its value, and every other text the model covers
  is \<open>NaN\<close>. (JavaScript also reads surrounding white space, a plus sign, fractions,
  exponents and radix prefixes; \<open>toString\<close> on an integer writes none of them.)
\<close>

fun Number :: "string \<Rightarrow> number" where
  "Number [] = Num 0"
| "Number (c # cs) =
     (if c = CHR ''-'' then (if isDecimal cs then Num (- int (digitsValue cs)) else NaN)
      else if isDecimal (c # cs) then Num (int (digitsValue (c # cs))) else NaN)"

text \<open>Arithmetic and comparison of numbers: \<open>NaN\<close> is absorbing and compares false.\<close>

fun add :: "number \<Rightarrow> number \<Rightarrow> number" where
  "add (Num a) (Num b) = Num (a + b)"
| "add _ _ = NaN"

fun sub :: "number \<Rightarrow> number \<Rightarrow> number" where
  "sub (Num a) (Num b) = Num (a - b)"
| "sub _ _ = NaN"

fun lessThan :: "number \<Rightarrow> number \<Rightarrow> bool" where
  "lessThan (Num a) (Num b) = (a < b)"
| "lessThan _ _ = False"

text \<open>\<^verbatim>\<open>Math.ceil(data.length / 10)\<close> and \<^verbatim>\<open>Math.ceil(requiredLength / 10)\<close>.\<close>

definition evaluateObfuscation :: "string \<Rightarrow> number" where
  "evaluateObfuscation data = Num \<lceil>real (length data) / 10\<rceil>"

fun evaluateDeduction :: "number \<Rightarrow> number" where
  "evaluateDeduction (Num requiredLength) = Num \<lceil>real_of_int requiredLength / 10\<rceil>"
| "evaluateDeduction NaN = NaN"

section \<open>The ledger as seen by a transaction\<close>

text \<open>
  \<^verbatim>\<open>ctx.stub\<close> and \<^verbatim>\<open>ctx.clientIdentity\<close>: the world state (keys to value bytes), the
  validation parameter (endorsement policy) of each key, the events set by the running
  transaction, and the MSP identifier of the invoking identity. The world state is an
  association list; a key without entry reads as the empty byte string, as
  \<^verbatim>\<open>getState\<close> of the platform does. No transaction function of the contract reads
  a key after writing it, so one world state stands for both the committed state and the
  write set. \<open>events\<close> lists the calls of \<^verbatim>\<open>setEvent\<close> in order (the platform keeps the
  last one). A policy is stored as it is, without the byte encoding of \<^verbatim>\<open>getPolicy()\<close>.
\<close>

type_synonym KeyEndorsementPolicy = "(string \<times> string) list"

record Context =
  worldState :: "(string \<times> string) list"
  validationParameter :: "string \<rightharpoonup> KeyEndorsementPolicy"
  events :: "(string \<times> string) list"
  MSPID :: string

definition getState :: "Context \<Rightarrow> string \<Rightarrow> string" where
  "getState ctx key = (case map_of (worldState ctx) key of None \<Rightarrow> [] | Some bytes \<Rightarrow> bytes)"

definition putState :: "Context \<Rightarrow> string \<Rightarrow> string \<Rightarrow> Context" where
  "putState ctx key bytes = ctx\<lparr>worldState := AList.update key bytes (worldState ctx)\<rparr>"

definition deleteState :: "Context \<Rightarrow> string \<Rightarrow> Context" where
  "deleteState ctx key = ctx\<lparr>worldState := AList.delete key (worldState ctx)\<rparr>"

definition setStateValidationParameter :: "Context \<Rightarrow> string \<Rightarrow> KeyEndorsementPolicy \<Rightarrow> Context" where
  "setStateValidationParameter ctx key policy =
     ctx\<lparr>validationParameter := (validationParameter ctx)(key \<mapsto> policy)\<rparr>"

definition setEvent :: "Context \<Rightarrow> string \<Rightarrow> string \<Rightarrow> Context" where
  "setEvent ctx name payload = ctx\<lparr>events := events ctx @ [(name, payload)]\<rparr>"

definition getMSPID :: "Context \<Rightarrow> string" where
  "getMSPID ctx = MSPID ctx"

text \<open>
  \<^verbatim>\<open>getStateByRange(startKey, endKey)\<close>: the stored keys from \<open>startKey\<close> (inclusive) to
  \<open>endKey\<close> (exclusive) in lexical order, each with its value; an empty bound is open.
\<close>

definition inRange :: "string \<Rightarrow> string \<Rightarrow> string \<Rightarrow> bool" where
  "inRange startKey endKey key = ((startKey = [] \<or> startKey \<le> key) \<and> (endKey = [] \<or> key < endKey))"

definition getStateByRange :: "Context \<Rightarrow> string \<Rightarrow> string \<Rightarrow> (string \<times> string) list" where
  "getStateByRange ctx startKey endKey =
     map (\<lambda>key. (key, getState ctx key))
       (sort (remdups (filter (inRange startKey endKey) (map fst (worldState ctx)))))"

text \<open>
  \<^verbatim>\<open>new KeyEndorsementPolicy()\<close>, \<^verbatim>\<open>addOrgs(role, ...orgs)\<close>: a policy maps each
  organization to the role whose signature it requires.
\<close>

definition addOrgs :: "KeyEndorsementPolicy \<Rightarrow> string \<Rightarrow> string list \<Rightarrow> KeyEndorsementPolicy" where
  "addOrgs policy role orgs = fold (\<lambda>org. AList.update org role) orgs policy"

definition newMemberPolicy :: "string list \<Rightarrow> KeyEndorsementPolicy" where
  "newMemberPolicy orgs = addOrgs [] ''MEMBER'' orgs"

definition setEndorsingOrgs :: "Context \<Rightarrow> string \<Rightarrow> string list \<Rightarrow> Context" where
  "setEndorsingOrgs ctx ledgerKey orgs =
     (let policy = newMemberPolicy orgs
      in setStateValidationParameter ctx ledgerKey policy)"

section \<open>The contract\<close>

text \<open>
  A transaction function returns the context it leaves behind, or the error it throws.
  In each function every \<^verbatim>\<open>throw\<close> comes before the first write, so a transaction that
  throws has written nothing.
\<close>

datatype error = Error string

definition ClientExists :: "Context \<Rightarrow> string \<Rightarrow> bool" where
  "ClientExists ctx id' = (let tokAmount = getState ctx id' in length tokAmount > 0)"

definition AddClient :: "Context \<Rightarrow> string \<Rightarrow> number \<Rightarrow> error + Context" where
  "AddClient ctx id' initAmount =
     (let exists = ClientExists ctx id' in
      if exists then Inl (Error (''The asset '' @ id' @ '' already exists''))
      else
        let ctx1 = putState ctx id' (toString initAmount);
            ctx2 = setEndorsingOrgs ctx1 id' [getMSPID ctx1];
            ctx3 = setEvent ctx2 ''AddClient'' (toString initAmount)
        in Inr ctx3)"

definition GetTokens :: "Context \<Rightarrow> string \<Rightarrow> error + number" where
  "GetTokens ctx id' =
     (let assetBytes = getState ctx id' in
      if length assetBytes = 0 then Inl (Error (''Sorry, asset '' @ id' @ '' has not been created''))
      else Inr (Number assetBytes))"

definition PutTokens :: "Context \<Rightarrow> string \<Rightarrow> number \<Rightarrow> error + Context" where
  "PutTokens ctx id' newAmount =
     (let exists = ClientExists ctx id' in
      if \<not> exists then Inl (Error (''The asset '' @ id' @ '' does not exist''))
      else
        let ctx1 = putState ctx id' (toString newAmount);
            ctx2 = setEndorsingOrgs ctx1 id' [getMSPID ctx1];
            ctx3 = setEvent ctx2 ''PutTokens'' (toString newAmount)
        in Inr ctx3)"

definition DeleteClient :: "Context \<Rightarrow> string \<Rightarrow> error + Context" where
  "DeleteClient ctx id' =
     (let assetBytes = getState ctx id' in
      if length assetBytes = 0 then Inl (Error (''Sorry, asset '' @ id' @ '' has not been created''))
      else
        let ctx1 = deleteState ctx id';
            ctx2 = setEvent ctx1 ''DeleteClient'' assetBytes
        in Inr ctx2)"

definition ContributeResource :: "Context \<Rightarrow> string \<Rightarrow> string \<Rightarrow> error + Context" where
  "ContributeResource ctx id' data =
     (let exists = ClientExists ctx id' in
      if \<not> exists then Inl (Error (''The asset '' @ id' @ '' does not exist''))
      else
        case GetTokens ctx id' of
          Inl err \<Rightarrow> Inl err
        | Inr currentTokens \<Rightarrow>
            let newAmount = add currentTokens (evaluateObfuscation data) in
            case PutTokens ctx id' newAmount of
              Inl err \<Rightarrow> Inl err
            | Inr ctx1 \<Rightarrow> Inr (setEvent ctx1 ''ContributeResource'' (toString newAmount)))"

definition ConsumeResource :: "Context \<Rightarrow> string \<Rightarrow> number \<Rightarrow> error + Context" where
  "ConsumeResource ctx id' requiredLength =
     (let exists = ClientExists ctx id' in
      if \<not> exists then Inl (Error (''The asset '' @ id' @ '' does not exist''))
      else
        case GetTokens ctx id' of
          Inl err \<Rightarrow> Inl err
        | Inr currentTokens \<Rightarrow>
            let newAmount = sub currentTokens (evaluateDeduction requiredLength) in
            if lessThan newAmount (Num 0)
            then Inl (Error (''Client '' @ id' @ '' has insufficient tokens''))
            else
              case PutTokens ctx id' newAmount of
                Inl err \<Rightarrow> Inl err
              | Inr ctx1 \<Rightarrow> Inr (setEvent ctx1 ''ConsumeResource'' (toString newAmount)))"

text \<open>
  \<open>GetAllTokens\<close>: the loop over the range iterator pushes one asset per entry. The
  transaction returns the deterministic JSON text of the array; the model returns the
  array itself (the key sorting of the rendering orders the fields inside each object and
  leaves the order of the array's elements as it is).
\<close>

record asset =
  assetId :: string
  tokens :: number

fun pushAll :: "(string \<times> string) list \<Rightarrow> asset list \<Rightarrow> asset list" where
  "pushAll [] assets = assets"
| "pushAll (result # iterator) assets =
     pushAll iterator (assets @ [\<lparr>assetId = fst result, tokens = Number (snd result)\<rparr>])"

definition GetAllTokens :: "Context \<Rightarrow> error + asset list" where
  "GetAllTokens ctx =
     (let iterator = getStateByRange ctx [] []
      in Inr (pushAll iterator []))"

text \<open>The error messages, named after the error kinds of the design.\<close>

definition AlreadyExists :: "string \<Rightarrow> error" where
  "AlreadyExists id' = Error (''The asset '' @ id' @ '' already exists'')"

definition NotCreated :: "string \<Rightarrow> error" where
  "NotCreated id' = Error (''Sorry, asset '' @ id' @ '' has not been created'')"

definition DoesNotExist :: "string \<Rightarrow> error" where
  "DoesNotExist id' = Error (''The asset '' @ id' @ '' does not exist'')"

definition InsufficientBalance :: "string \<Rightarrow> error" where
  "InsufficientBalance id' = Error (''Client '' @ id' @ '' has insufficient tokens'')"

section \<open>Sequences of transactions\<close>

text \<open>
  A submitted transaction runs for an invoking identity with no event set yet. When it
  returns, its writes are committed; when it throws, the ledger stays as it was.
\<close>

datatype transaction =
    TxAddClient string number
  | TxPutTokens string number
  | TxDeleteClient string
  | TxContributeResource string string
  | TxConsumeResource string number

fun invoke :: "Context \<Rightarrow> transaction \<Rightarrow> error + Context" where
  "invoke ctx (TxAddClient id' initAmount) = AddClient ctx id' initAmount"
| "invoke ctx (TxPutTokens id' newAmount) = PutTokens ctx id' newAmount"
| "invoke ctx (TxDeleteClient id') = DeleteClient ctx id'"
| "invoke ctx (TxContributeResource id' data) = ContributeResource ctx id' data"
| "invoke ctx (TxConsumeResource id' requiredLength) = ConsumeResource ctx id' requiredLength"

definition proposal :: "Context \<Rightarrow> string \<Rightarrow> Context" where
  "proposal ledger mspid = ledger\<lparr>events := [], MSPID := mspid\<rparr>"

definition execute :: "Context \<Rightarrow> string \<times> transaction \<Rightarrow> Context" where
  "execute ledger call =
     (case invoke (proposal ledger (fst call)) (snd call) of
        Inl err \<Rightarrow> ledger
      | Inr ctx \<Rightarrow> ctx)"

definition emptyLedger :: Context where
  "emptyLedger = \<lparr>worldState = [], validationParameter = Map.empty, events = [], MSPID = []\<rparr>"

definition executeAll :: "(string \<times> transaction) list \<Rightarrow> Context" where
  "executeAll calls = foldl execute emptyLedger calls"




text \<open>The ledger of the examples: \<open>org1MSP\<close> has added the client \<open>alice\<close> with 5 tokens.\<close>

definition sampleLedger :: Context where
  "sampleLedger = executeAll [(''org1MSP'', TxAddClient ''alice'' (Num 5))]"

text \<open>Two invariants of the ledger, used in the proofs about sequences.\<close>

definition storedValuesNonEmpty :: "Context \<Rightarrow> bool" where
  "storedValuesNonEmpty ledger = (\<forall>key. map_of (worldState ledger) key \<noteq> Some [])"


section \<open>The submission client\<close>

text \<open>
  The gateway's \<^verbatim>\<open>Contract\<close> offers \<^verbatim>\<open>submit\<close> and \<^verbatim>\<open>evaluate\<close>. Each call
  acts on the state \<open>'g\<close> of the network behind the gateway and returns the result bytes
  or throws. A thrown value is a \<^verbatim>\<open>CommitError\<close> with a status code, some other error,
  or \<^verbatim>\<open>undefined\<close>. Of the status codes of the gateway library the client names
  \<^verbatim>\<open>MVCC_READ_CONFLICT\<close> only.
\<close>

datatype StatusCode = MVCC_READ_CONFLICT | OTHER_STATUS nat

datatype thrown = CommitError StatusCode | OtherError string | Undefined

record 'g Contract =
  submit :: "string \<Rightarrow> string list \<Rightarrow> 'g \<Rightarrow> (thrown + string) \<times> 'g"
  evaluate :: "string \<Rightarrow> string list \<Rightarrow> 'g \<Rightarrow> (thrown + string) \<times> 'g"

record 'g AssetTransfer =
  contract :: "'g Contract"

definition RETRIES :: nat where
  "RETRIES = 2"

text \<open>
  The loop of \<open>submitWithRetry\<close>, entered with the current \<open>retryCount\<close> and
  \<open>lastError\<close>: \<^verbatim>\<open>continue\<close> is the recursive call, \<^verbatim>\<open>break\<close> and the end of the loop
  throw \<open>lastError\<close>.
\<close>

function submitWithRetry_loop ::
  "('g \<Rightarrow> (thrown + 'a) \<times> 'g) \<Rightarrow> nat \<Rightarrow> thrown \<Rightarrow> 'g \<Rightarrow> (thrown + 'a) \<times> 'g" where
  "submitWithRetry_loop submit' retryCount lastError g =
     (if retryCount < RETRIES then
        (case submit' g of
           (Inr result, g') \<Rightarrow> (Inr result, g')
         | (Inl err, g') \<Rightarrow>
             (case err of
                CommitError code \<Rightarrow>
                  if code = MVCC_READ_CONFLICT
                  then submitWithRetry_loop submit' (retryCount + 1) err g'
                  else (Inl err, g')
              | _ \<Rightarrow> (Inl err, g')))
      else (Inl lastError, g))"
  by pat_completeness auto
termination
  by (relation "measure (\<lambda>(submit', retryCount, lastError, g). RETRIES - retryCount)") auto

declare submitWithRetry_loop.simps [simp del]

definition submitWithRetry :: "('g \<Rightarrow> (thrown + 'a) \<times> 'g) \<Rightarrow> 'g \<Rightarrow> (thrown + 'a) \<times> 'g" where
  "submitWithRetry submit' g = submitWithRetry_loop submit' 0 Undefined g"

text \<open>A method of type \<^verbatim>\<open>Promise<void>\<close> awaits the call and drops its result.\<close>

definition void :: "(thrown + 'a) \<times> 'g \<Rightarrow> (thrown + unit) \<times> 'g" where
  "void outcome = (case outcome of (Inl err, g') \<Rightarrow> (Inl err, g') | (Inr result, g') \<Rightarrow> (Inr (), g'))"

definition toLowerCase :: "string \<Rightarrow> string" where
  "toLowerCase s =
     map (\<lambda>c. if 65 \<le> (of_char c :: nat) \<and> (of_char c :: nat) \<le> 90 then char_of ((of_char c :: nat) + 32) else c) s"

definition addClient :: "'g AssetTransfer \<Rightarrow> number \<Rightarrow> 'g \<Rightarrow> (thrown + unit) \<times> 'g" where
  "addClient this initAmount g = void (submit (contract this) ''AddClient'' [toString initAmount] g)"

text \<open>
  \<^verbatim>\<open>JSON.parse\<close> is a parameter of the two methods that call it: it returns the parsed
  value or throws.
\<close>

definition getAllTokens ::
  "'g AssetTransfer \<Rightarrow> (string \<Rightarrow> thrown + asset list) \<Rightarrow> 'g \<Rightarrow> (thrown + asset list) \<times> 'g" where
  "getAllTokens this JSON_parse g =
     (case evaluate (contract this) ''GetAllTokens'' [] g of
        (Inl err, g') \<Rightarrow> (Inl err, g')
      | (Inr result, g') \<Rightarrow>
          if length result = 0 then (Inr [], g') else (JSON_parse result, g'))"

definition getTokens ::
  "'g AssetTransfer \<Rightarrow> (string \<Rightarrow> thrown + number) \<Rightarrow> 'g \<Rightarrow> (thrown + number) \<times> 'g" where
  "getTokens this JSON_parse g =
     (case evaluate (contract this) ''GetTokens'' [] g of
        (Inl err, g') \<Rightarrow> (Inl err, g')
      | (Inr result, g') \<Rightarrow> (JSON_parse result, g'))"

definition putTokens :: "'g AssetTransfer \<Rightarrow> number \<Rightarrow> 'g \<Rightarrow> (thrown + unit) \<times> 'g" where
  "putTokens this newAmount g =
     void (submitWithRetry (submit (contract this) ''PutTokens'' [toString newAmount]) g)"

definition deleteClient :: "'g AssetTransfer \<Rightarrow> 'g \<Rightarrow> (thrown + unit) \<times> 'g" where
  "deleteClient this g = void (submitWithRetry (submit (contract this) ''DeleteClient'' []) g)"

definition clientExists :: "'g AssetTransfer \<Rightarrow> 'g \<Rightarrow> (thrown + bool) \<times> 'g" where
  "clientExists this g =
     (case evaluate (contract this) ''ClientExists'' [] g of
        (Inl err, g') \<Rightarrow> (Inl err, g')
      | (Inr result, g') \<Rightarrow> (Inr (toLowerCase result = ''true''), g'))"

definition contributeResource :: "'g AssetTransfer \<Rightarrow> string \<Rightarrow> 'g \<Rightarrow> (thrown + unit) \<times> 'g" where
  "contributeResource this data g = void (submit (contract this) ''ContributeResource'' [data] g)"

definition consumeResource :: "'g AssetTransfer \<Rightarrow> number \<Rightarrow> 'g \<Rightarrow> (thrown + unit) \<times> 'g" where
  "consumeResource this requiredLength g =
     void (submit (contract this) ''ConsumeResource'' [toString requiredLength] g)"

text \<open>
  Counting the calls that reach the network: \<open>counting c\<close> behaves as the contract \<open>c\<close>
  and records, beside the state of \<open>c\<close>, how many submissions and how many evaluations
  were made. \<open>counted f\<close> does the same for a single submission closure.
\<close>

record 'g Counting =
  network :: 'g
  submissions :: nat
  evaluations :: nat

definition counting :: "'g Contract \<Rightarrow> ('g Counting) Contract" where
  "counting c =
     \<lparr>submit = (\<lambda>name args s.
        (fst (submit c name args (network s)),
         s\<lparr>network := snd (submit c name args (network s)), submissions := submissions s + 1\<rparr>)),
      evaluate = (\<lambda>name args s.
        (fst (evaluate c name args (network s)),
         s\<lparr>network := snd (evaluate c name args (network s)), evaluations := evaluations s + 1\<rparr>))\<rparr>"

definition counted :: "('g \<Rightarrow> (thrown + 'a) \<times> 'g) \<Rightarrow> 'g \<times> nat \<Rightarrow> (thrown + 'a) \<times> ('g \<times> nat)" where
  "counted f s = (fst (f (fst s)), (snd (f (fst s)), snd s + 1))"

text \<open>
  A network on which the first \<open>k\<close> submissions lose the optimistic-concurrency race and
  every later one commits; its state is the number of submissions seen.
\<close>

definition conflicting :: "nat \<Rightarrow> nat Contract" where
  "conflicting k =
     \<lparr>submit = (\<lambda>name args n.
        (if n < k then Inl (CommitError MVCC_READ_CONFLICT) else Inr [], n + 1)),
      evaluate = (\<lambda>name args n. (Inr ''true'', n))\<rparr>"


section \<open>Properties of the byte rendering\<close>

lemma digitValue_digitChar: "d < 10 \<Longrightarrow> digitValue (digitChar d) = d"
  by (simp add: digitValue_def digitChar_def)

lemma isDigit_digitChar: "d < 10 \<Longrightarrow> isDigit (digitChar d)"
  by (simp add: isDigit_def digitChar_def)

lemma decimal_not_Nil: "decimal n \<noteq> []"
  by (subst decimal.simps) simp

lemma decimal_all_digits: "list_all isDigit (decimal n)"
proof (induction n rule: decimal.induct)
  case (1 n)
  show ?case
  proof (cases "n < 10")
    case True
    then show ?thesis by (subst decimal.simps) (simp add: isDigit_digitChar)
  next
    case False
    with 1 show ?thesis by (subst decimal.simps) (simp add: isDigit_digitChar)
  qed
qed

lemma isDecimal_decimal: "isDecimal (decimal n)"
  by (simp add: isDecimal_def decimal_not_Nil decimal_all_digits)

lemma digitsValue_snoc: "digitsValue (s @ [c]) = 10 * digitsValue s + digitValue c"
  by (simp add: digitsValue_def)

lemma digitsValue_decimal: "digitsValue (decimal n) = n"
proof (induction n rule: decimal.induct)
  case (1 n)
  show ?case
  proof (cases "n < 10")
    case True
    then show ?thesis
      by (subst decimal.simps) (simp add: digitsValue_def digitValue_digitChar)
  next
    case False
    with 1 have "digitsValue (decimal (n div 10)) = n div 10" by simp
    with False show ?thesis
      by (subst decimal.simps) (simp add: digitsValue_snoc digitValue_digitChar)
  qed
qed

lemma hd_decimal_digit: "isDigit (hd (decimal n))"
  using decimal_all_digits [of n] decimal_not_Nil [of n]
  by (cases "decimal n") simp_all

lemma Number_decimal: "Number (decimal n) = Num (int n)"
proof (cases "decimal n")
  case Nil
  then show ?thesis by (simp add: decimal_not_Nil)
next
  case (Cons c cs)
  have "isDigit c" using hd_decimal_digit [of n] Cons by simp
  then have "c \<noteq> CHR ''-''" by (auto simp: isDigit_def)
  moreover have "isDecimal (c # cs)" using isDecimal_decimal [of n] Cons by simp
  moreover have "digitsValue (c # cs) = n" using digitsValue_decimal [of n] Cons by simp
  ultimately show ?thesis using Cons by simp
qed

lemma Number_toString: "Number (toString x) = x"
proof (cases x)
  case (Num n)
  show ?thesis
  proof (cases "n < 0")
    case True
    then show ?thesis using Num
      by (simp add: isDecimal_decimal digitsValue_decimal)
  next
    case False
    then show ?thesis using Num by (simp add: Number_decimal)
  qed
next
  case NaN
  then show ?thesis by (simp add: isDecimal_def isDigit_def)
qed

lemma toString_not_Nil: "toString x \<noteq> []"
  by (cases x) (simp_all add: decimal_not_Nil)


declare toString.simps [simp del]

section \<open>Properties of the ledger operations\<close>

lemma getState_putState:
  "getState (putState ctx key bytes) key' = (if key' = key then bytes else getState ctx key')"
  by (simp add: getState_def putState_def update_conv')

lemma getState_deleteState:
  "getState (deleteState ctx key) key' = (if key' = key then [] else getState ctx key')"
  by (simp add: getState_def deleteState_def delete_conv')

lemma getState_setEndorsingOrgs: "getState (setEndorsingOrgs ctx key orgs) key' = getState ctx key'"
  by (simp add: getState_def setEndorsingOrgs_def setStateValidationParameter_def)

lemma getState_setEvent: "getState (setEvent ctx name payload) key' = getState ctx key'"
  by (simp add: getState_def setEvent_def)

lemma getState_proposal: "getState (proposal ledger mspid) key' = getState ledger key'"
  by (simp add: getState_def proposal_def)

lemmas getState_simps =
  getState_putState getState_deleteState getState_setEndorsingOrgs getState_setEvent
  getState_proposal

lemma worldState_simps:
  "worldState (putState ctx key bytes) = AList.update key bytes (worldState ctx)"
  "worldState (deleteState ctx key) = AList.delete key (worldState ctx)"
  "worldState (setEvent ctx name payload) = worldState ctx"
  "worldState (setEndorsingOrgs ctx key orgs) = worldState ctx"
  by (simp_all add: putState_def deleteState_def setEvent_def setEndorsingOrgs_def
      setStateValidationParameter_def)



lemma ClientExists_proposal: "ClientExists (proposal ledger mspid) id' = ClientExists ledger id'"
  by (simp add: ClientExists_def getState_proposal)


lemma GetTokens_Inr_iff:
  "GetTokens ctx id' = Inr x \<longleftrightarrow> ClientExists ctx id' \<and> Number (getState ctx id') = x"
  by (auto simp: GetTokens_def ClientExists_def Let_def)

lemma GetTokens_setEvent: "GetTokens (setEvent ctx name payload) id' = GetTokens ctx id'"
  by (simp add: GetTokens_def getState_setEvent)

lemma GetTokens_written:
  "GetTokens (setEvent (setEndorsingOrgs (putState ctx id' (toString x)) id' orgs) name payload) id'
     = Inr x"
  by (simp add: GetTokens_def getState_simps toString_not_Nil Number_toString)

lemma GetTokens_written':
  "GetTokens (setEndorsingOrgs (putState ctx id' (toString x)) id' orgs) id' = Inr x"
  by (simp add: GetTokens_def getState_simps toString_not_Nil Number_toString)

lemma ClientExists_written:
  "ClientExists (setEvent (setEndorsingOrgs (putState ctx id' (toString x)) id' orgs) name payload) id'"
  by (simp add: ClientExists_def getState_simps toString_not_Nil)

section \<open>What each transaction returns\<close>

lemma AddClient_Inr:
  assumes "\<not> ClientExists ctx id'"
  shows "AddClient ctx id' x =
    Inr (setEvent (setEndorsingOrgs (putState ctx id' (toString x)) id' [MSPID ctx])
           ''AddClient'' (toString x))"
  using assms by (simp add: AddClient_def Let_def getMSPID_def putState_def)

lemma AddClient_Inr_iff:
  "AddClient ctx id' x = Inr ctx' \<longleftrightarrow>
     \<not> ClientExists ctx id' \<and>
     ctx' = setEvent (setEndorsingOrgs (putState ctx id' (toString x)) id' [MSPID ctx])
              ''AddClient'' (toString x)"
  by (auto simp: AddClient_def Let_def getMSPID_def putState_def)

lemma PutTokens_Inr:
  assumes "ClientExists ctx id'"
  shows "PutTokens ctx id' x =
    Inr (setEvent (setEndorsingOrgs (putState ctx id' (toString x)) id' [MSPID ctx])
           ''PutTokens'' (toString x))"
  using assms by (simp add: PutTokens_def Let_def getMSPID_def putState_def)

lemma PutTokens_Inr_iff:
  "PutTokens ctx id' x = Inr ctx' \<longleftrightarrow>
     ClientExists ctx id' \<and>
     ctx' = setEvent (setEndorsingOrgs (putState ctx id' (toString x)) id' [MSPID ctx])
              ''PutTokens'' (toString x)"
  by (auto simp: PutTokens_def Let_def getMSPID_def putState_def)

lemma GetTokens_after_PutTokens:
  assumes "PutTokens ctx id' x = Inr ctx'"
  shows "GetTokens ctx' id' = Inr x"
proof -
  from assms have ex: "ClientExists ctx id'"
    by (auto simp: PutTokens_def Let_def split: if_splits)
  from assms PutTokens_Inr [OF ex, of x] have "getState ctx' id' = toString x"
    by (auto simp: getState_simps)
  then show ?thesis
    by (simp add: GetTokens_def Let_def toString_not_Nil Number_toString)
qed

lemma DeleteClient_Inr_iff:
  "DeleteClient ctx id' = Inr ctx' \<longleftrightarrow>
     ClientExists ctx id' \<and>
     ctx' = setEvent (deleteState ctx id') ''DeleteClient'' (getState ctx id')"
  by (auto simp: DeleteClient_def ClientExists_def Let_def)

lemma ContributeResource_Inr:
  assumes "GetTokens ctx id' = Inr x"
  shows "ContributeResource ctx id' data =
    Inr (setEvent
          (setEvent (setEndorsingOrgs
             (putState ctx id' (toString (add x (evaluateObfuscation data)))) id' [MSPID ctx])
             ''PutTokens'' (toString (add x (evaluateObfuscation data))))
          ''ContributeResource'' (toString (add x (evaluateObfuscation data))))"
proof -
  from assms have ex: "ClientExists ctx id'" by (simp add: GetTokens_Inr_iff)
  show ?thesis
    by (simp add: ContributeResource_def Let_def ex assms PutTokens_Inr [OF ex])
qed

lemma ConsumeResource_Inr:
  assumes "GetTokens ctx id' = Inr x"
    and "\<not> lessThan (sub x (evaluateDeduction y)) (Num 0)"
  shows "ConsumeResource ctx id' y =
    Inr (setEvent
          (setEvent (setEndorsingOrgs
             (putState ctx id' (toString (sub x (evaluateDeduction y)))) id' [MSPID ctx])
             ''PutTokens'' (toString (sub x (evaluateDeduction y))))
          ''ConsumeResource'' (toString (sub x (evaluateDeduction y))))"
proof -
  from assms have ex: "ClientExists ctx id'" by (simp add: GetTokens_Inr_iff)
  show ?thesis
    by (simp add: ConsumeResource_def Let_def ex assms PutTokens_Inr [OF ex])
qed

lemma ConsumeResource_Inl:
  assumes "GetTokens ctx id' = Inr x"
    and "lessThan (sub x (evaluateDeduction y)) (Num 0)"
  shows "ConsumeResource ctx id' y = Inl (InsufficientBalance id')"
proof -
  from assms have ex: "ClientExists ctx id'" by (simp add: GetTokens_Inr_iff)
  show ?thesis
    by (simp add: ConsumeResource_def Let_def ex assms InsufficientBalance_def)
qed

lemma ContributeResource_Inr_iff:
  "ContributeResource ctx id' data = Inr ctx' \<longleftrightarrow>
     ClientExists ctx id' \<and>
     ctx' = setEvent
       (setEvent (setEndorsingOrgs
          (putState ctx id' (toString (add (Number (getState ctx id')) (evaluateObfuscation data))))
          id' [MSPID ctx])
          ''PutTokens'' (toString (add (Number (getState ctx id')) (evaluateObfuscation data))))
       ''ContributeResource'' (toString (add (Number (getState ctx id')) (evaluateObfuscation data)))"
proof (cases "ClientExists ctx id'")
  case True
  then have "GetTokens ctx id' = Inr (Number (getState ctx id'))"
    by (simp add: GetTokens_Inr_iff)
  from ContributeResource_Inr [OF this, of data] True show ?thesis by auto
next
  case False
  then show ?thesis by (simp add: ContributeResource_def)
qed

lemma ConsumeResource_Inr_iff:
  "ConsumeResource ctx id' y = Inr ctx' \<longleftrightarrow>
     ClientExists ctx id' \<and>
     \<not> lessThan (sub (Number (getState ctx id')) (evaluateDeduction y)) (Num 0) \<and>
     ctx' = setEvent
       (setEvent (setEndorsingOrgs
          (putState ctx id' (toString (sub (Number (getState ctx id')) (evaluateDeduction y))))
          id' [MSPID ctx])
          ''PutTokens'' (toString (sub (Number (getState ctx id')) (evaluateDeduction y))))
       ''ConsumeResource'' (toString (sub (Number (getState ctx id')) (evaluateDeduction y)))"
proof (cases "ClientExists ctx id'")
  case True
  then have g: "GetTokens ctx id' = Inr (Number (getState ctx id'))"
    by (simp add: GetTokens_Inr_iff)
  show ?thesis
  proof (cases "lessThan (sub (Number (getState ctx id')) (evaluateDeduction y)) (Num 0)")
    case low: True
    from ConsumeResource_Inl [OF g low] low show ?thesis by simp
  next
    case ok: False
    from ConsumeResource_Inr [OF g ok] ok True show ?thesis by auto
  qed
next
  case False
  then show ?thesis by (simp add: ConsumeResource_def)
qed

lemma sampleLedger_added:
  "AddClient (proposal emptyLedger ''org1MSP'') ''alice'' (Num 5) = Inr sampleLedger"
proof -
  have absent: "\<not> ClientExists (proposal emptyLedger ''org1MSP'') ''alice''"
    by code_simp
  then show ?thesis
    by (simp add: sampleLedger_def executeAll_def execute_def AddClient_Inr)
qed

lemma sampleLedger_balance: "GetTokens sampleLedger ''alice'' = Inr (Num 5)"
  by code_simp

section \<open>Invariants along sequences of transactions\<close>

lemma executeAll_Nil: "executeAll [] = emptyLedger"
  by (simp add: executeAll_def)

lemma executeAll_snoc: "executeAll (calls @ [call]) = execute (executeAll calls) call"
  by (simp add: executeAll_def)

lemma invoke_Inr_cases:
  assumes "invoke ctx tx = Inr ctx'"
  obtains (put) key x where "getState ctx' = (getState ctx)(key := toString x)"
      "worldState ctx' = AList.update key (toString x) (worldState ctx)"
      "tx = TxAddClient key x \<or> tx = TxPutTokens key x \<or>
       (\<exists>data. tx = TxContributeResource key data \<and> ClientExists ctx key \<and>
          x = add (Number (getState ctx key)) (evaluateObfuscation data)) \<or>
       (\<exists>y. tx = TxConsumeResource key y \<and> ClientExists ctx key \<and>
          x = sub (Number (getState ctx key)) (evaluateDeduction y) \<and> \<not> lessThan x (Num 0))"
    | (delete) key where "getState ctx' = (getState ctx)(key := [])"
      "worldState ctx' = AList.delete key (worldState ctx)" "tx = TxDeleteClient key"
proof (cases tx)
  case (TxAddClient key x)
  with assms have "ctx' = setEvent (setEndorsingOrgs (putState ctx key (toString x)) key [MSPID ctx])
              ''AddClient'' (toString x)"
    by (simp add: AddClient_Inr_iff)
  then have "getState ctx' = (getState ctx)(key := toString x)"
    "worldState ctx' = AList.update key (toString x) (worldState ctx)"
    by (simp_all add: getState_simps fun_eq_iff worldState_simps)
  with TxAddClient show ?thesis by (intro put) auto
next
  case (TxPutTokens key x)
  with assms have "ctx' = setEvent (setEndorsingOrgs (putState ctx key (toString x)) key [MSPID ctx])
              ''PutTokens'' (toString x)"
    by (simp add: PutTokens_Inr_iff)
  then have "getState ctx' = (getState ctx)(key := toString x)"
    "worldState ctx' = AList.update key (toString x) (worldState ctx)"
    by (simp_all add: getState_simps fun_eq_iff worldState_simps)
  with TxPutTokens show ?thesis by (intro put) auto
next
  case (TxDeleteClient key)
  with assms have "ctx' = setEvent (deleteState ctx key) ''DeleteClient'' (getState ctx key)"
    by (simp add: DeleteClient_Inr_iff)
  then have "getState ctx' = (getState ctx)(key := [])"
    "worldState ctx' = AList.delete key (worldState ctx)"
    by (simp_all add: getState_simps fun_eq_iff worldState_simps)
  with TxDeleteClient show ?thesis by (intro delete) auto
next
  case (TxContributeResource key data)
  define x where "x = add (Number (getState ctx key)) (evaluateObfuscation data)"
  from assms TxContributeResource have ex: "ClientExists ctx key"
    and "ctx' = setEvent (setEvent (setEndorsingOrgs (putState ctx key (toString x)) key [MSPID ctx])
          ''PutTokens'' (toString x)) ''ContributeResource'' (toString x)"
    by (simp_all add: ContributeResource_Inr_iff x_def)
  then have "getState ctx' = (getState ctx)(key := toString x)"
    "worldState ctx' = AList.update key (toString x) (worldState ctx)"
    by (simp_all add: getState_simps fun_eq_iff worldState_simps)
  with TxContributeResource ex x_def show ?thesis by (intro put) auto
next
  case (TxConsumeResource key y)
  define x where "x = sub (Number (getState ctx key)) (evaluateDeduction y)"
  from assms TxConsumeResource have ex: "ClientExists ctx key" and ok: "\<not> lessThan x (Num 0)"
    and "ctx' = setEvent (setEvent (setEndorsingOrgs (putState ctx key (toString x)) key [MSPID ctx])
          ''PutTokens'' (toString x)) ''ConsumeResource'' (toString x)"
    by (simp_all add: ConsumeResource_Inr_iff x_def)
  then have "getState ctx' = (getState ctx)(key := toString x)"
    "worldState ctx' = AList.update key (toString x) (worldState ctx)"
    by (simp_all add: getState_simps fun_eq_iff worldState_simps)
  with TxConsumeResource ex ok x_def show ?thesis by (intro put) auto
qed

lemma storedValuesNonEmpty_invoke:
  assumes "storedValuesNonEmpty ctx" and "invoke ctx tx = Inr ctx'"
  shows "storedValuesNonEmpty ctx'"
  using assms(2)
proof (cases rule: invoke_Inr_cases)
  case (put key x)
  with assms(1) show ?thesis
    by (simp add: storedValuesNonEmpty_def update_conv' toString_not_Nil)
next
  case (delete key)
  with assms(1) show ?thesis
    by (simp add: storedValuesNonEmpty_def delete_conv')
qed

lemma storedValuesNonEmpty_proposal:
  "storedValuesNonEmpty (proposal ledger mspid) = storedValuesNonEmpty ledger"
  by (simp add: storedValuesNonEmpty_def proposal_def)

lemma storedValuesNonEmpty_execute:
  "storedValuesNonEmpty ledger \<Longrightarrow> storedValuesNonEmpty (execute ledger call)"
  by (auto simp: execute_def storedValuesNonEmpty_proposal split: sum.splits
      intro: storedValuesNonEmpty_invoke [where ctx = "proposal ledger (fst call)"])

lemma storedValuesNonEmpty_executeAll: "storedValuesNonEmpty (executeAll calls)"
proof (induction calls rule: rev_induct)
  case Nil
  show ?case by (simp add: executeAll_Nil storedValuesNonEmpty_def emptyLedger_def)
next
  case (snoc call calls)
  then show ?case by (simp add: executeAll_snoc storedValuesNonEmpty_execute)
qed

lemma ClientExists_iff_stored:
  assumes "storedValuesNonEmpty ctx"
  shows "ClientExists ctx key \<longleftrightarrow> key \<in> fst ` set (worldState ctx)"
proof -
  have "map_of (worldState ctx) key = None \<longleftrightarrow> key \<notin> fst ` set (worldState ctx)"
    by (rule map_of_eq_None_iff)
  with assms show ?thesis
    by (auto simp: ClientExists_def getState_def storedValuesNonEmpty_def split: option.splits)
qed








section \<open>Balances stay non-negative\<close>




section \<open>The endorsement policy\<close>




section \<open>Consuming and contributing resources\<close>





text \<open>
  C10: for an existing account with balance \<open>b\<close>, \<open>ContributeResource(id, "")\<close>
  succeeds and leaves the balance \<open>b\<close>, the cost of length 0 being 0. It still writes
  the state of the key, attaches the policy of the invoker's organization and sets the
  \<open>PutTokens\<close> and \<open>ContributeResource\<close> events.
\<close>

theorem ContributeResource_empty_identity:
  assumes "GetTokens ctx id' = Inr (Num b)"
  shows "evaluateObfuscation [] = Num 0 \<and>
         (\<exists>ctx'. ContributeResource ctx id' [] = Inr ctx' \<and>
           GetTokens ctx' id' = Inr (Num b) \<and>
           ctx' = setEvent (setEvent (setEndorsingOrgs (putState ctx id' (toString (Num b))) id' [MSPID ctx])
                     ''PutTokens'' (toString (Num b))) ''ContributeResource'' (toString (Num b)) \<and>
           getState ctx' id' = toString (Num b) \<and>
           validationParameter ctx' id' = Some [(MSPID ctx, ''MEMBER'')] \<and>
           events ctx' = events ctx @ [(''PutTokens'', toString (Num b)), (''ContributeResource'', toString (Num b))])"
proof -
  have zero: "evaluateObfuscation [] = Num 0" by (simp add: evaluateObfuscation_def)
  from ContributeResource_Inr [OF assms, of "[]"]
  have eq: "ContributeResource ctx id' [] = Inr (setEvent (setEvent (setEndorsingOrgs (putState ctx id' (toString (Num b))) id' [MSPID ctx])
                     ''PutTokens'' (toString (Num b))) ''ContributeResource'' (toString (Num b)))"
    by (simp add: zero)
  show ?thesis
    unfolding eq
    apply (simp add: zero GetTokens_setEvent GetTokens_written' getState_simps)
    apply (simp add: setEvent_def setEndorsingOrgs_def setStateValidationParameter_def putState_def
        newMemberPolicy_def addOrgs_def)
    done
qed

theorem ContributeResource_empty_identity_witness:
  "GetTokens sampleLedger ''alice'' = Inr (Num 5) \<and>
   (\<exists>ctx'. ContributeResource sampleLedger ''alice'' [] = Inr ctx' \<and>
           GetTokens ctx' ''alice'' = Inr (Num 5) \<and>
           events ctx' = events sampleLedger @ [(''PutTokens'', ''5''), (''ContributeResource'', ''5'')])"
proof -
  note b = sampleLedger_balance
  have five: "toString (Num 5) = ''5''" by code_simp
  from ContributeResource_empty_identity [OF b]
  show ?thesis using b unfolding five by auto
qed

section \<open>Listing all accounts\<close>

lemma pushAll_map:
  "pushAll iterator assets =
     assets @ map (\<lambda>result. \<lparr>assetId = fst result, tokens = Number (snd result)\<rparr>) iterator"
  by (induction iterator arbitrary: assets) simp_all

lemma inRange_open: "inRange [] [] key"
  by (simp add: inRange_def)

lemma GetAllTokens_eq:
  "GetAllTokens ctx =
     Inr (map (\<lambda>key. \<lparr>assetId = key, tokens = Number (getState ctx key)\<rparr>)
            (sort (remdups (map fst (worldState ctx)))))"
  by (simp add: GetAllTokens_def getStateByRange_def pushAll_map inRange_open comp_def)

text \<open>
  C7: on the ledger reached by any sequence of transactions, \<open>GetAllTokens\<close> does not
  fail; the identifiers of the assets it returns are sorted and pairwise distinct; an
  identifier is listed exactly when its account exists; and an asset \<open>(id, t)\<close> is listed
  exactly when \<open>GetTokens(id)\<close> returns \<open>t\<close>. So deleted and never created accounts
  have no entry.
\<close>

theorem GetAllTokens_present_accounts:
  "\<exists>assets. GetAllTokens (executeAll calls) = Inr assets \<and>
     sorted (map assetId assets) \<and> distinct (map assetId assets) \<and>
     (\<forall>key. ClientExists (executeAll calls) key = (key \<in> set (map assetId assets))) \<and>
     (\<forall>key t. (\<lparr>assetId = key, tokens = t\<rparr> \<in> set assets) = (GetTokens (executeAll calls) key = Inr t))"
proof -
  define ledger where "ledger = executeAll calls"
  define keys where "keys = sort (remdups (map fst (worldState ledger)))"
  define assets where "assets = map (\<lambda>key. \<lparr>assetId = key, tokens = Number (getState ledger key)\<rparr>) keys"
  have inv: "storedValuesNonEmpty ledger"
    unfolding ledger_def by (rule storedValuesNonEmpty_executeAll)
  have ids: "map assetId assets = keys"
    by (simp add: assets_def comp_def)
  have keys: "set keys = fst ` set (worldState ledger)" "sorted keys" "distinct keys"
    by (simp_all add: keys_def)
  have present: "ClientExists ledger key = (key \<in> set keys)" for key
    by (simp add: ClientExists_iff_stored [OF inv] keys)
  have member: "(\<lparr>assetId = key, tokens = t\<rparr> \<in> set assets) = (GetTokens ledger key = Inr t)" for key t
    by (auto simp: assets_def GetTokens_Inr_iff present)
  have "GetAllTokens ledger = Inr assets"
    by (simp add: GetAllTokens_eq assets_def keys_def)
  then have "GetAllTokens ledger = Inr assets \<and>
     sorted (map assetId assets) \<and> distinct (map assetId assets) \<and>
     (\<forall>key. ClientExists ledger key = (key \<in> set (map assetId assets))) \<and>
     (\<forall>key t. (\<lparr>assetId = key, tokens = t\<rparr> \<in> set assets) = (GetTokens ledger key = Inr t))"
    by (simp add: ids keys(2,3) present member)
  then show ?thesis
    unfolding ledger_def by blast
qed

section \<open>Adding, writing and reading\<close>

text \<open>
  C8: when \<open>AddClient(id, v1)\<close> has succeeded, a second \<open>AddClient(id, v2)\<close> on the
  resulting ledger throws the already-exists error, whoever invokes it; the ledger stays
  as it was and the balance read back is \<open>v1\<close>.
\<close>

theorem AddClient_twice_AlreadyExists:
  assumes "AddClient ctx id' v1 = Inr ctx1"
  shows "AddClient ctx1 id' v2 = Inl (AlreadyExists id') \<and>
         execute ctx1 (mspid, TxAddClient id' v2) = ctx1 \<and>
         GetTokens ctx1 id' = Inr v1"
proof -
  from assms have ctx1: "ctx1 = setEvent (setEndorsingOrgs (putState ctx id' (toString v1)) id' [MSPID ctx])
              ''AddClient'' (toString v1)"
    by (simp add: AddClient_Inr_iff)
  have ex: "ClientExists ctx1 id'"
    unfolding ctx1 by (rule ClientExists_written)
  then have second: "AddClient c id' v2 = Inl (AlreadyExists id')" if "ClientExists c id'" for c
    using that by (simp add: AddClient_def AlreadyExists_def)
  have "AddClient (proposal ctx1 mspid) id' v2 = Inl (AlreadyExists id')"
    by (rule second) (simp add: ClientExists_proposal ex)
  then have "execute ctx1 (mspid, TxAddClient id' v2) = ctx1"
    by (simp add: execute_def)
  moreover have "GetTokens ctx1 id' = Inr v1"
    unfolding ctx1 by (rule GetTokens_written)
  ultimately show ?thesis using second [OF ex] by simp
qed

theorem AddClient_twice_AlreadyExists_witness:
  "AddClient (proposal emptyLedger ''org1MSP'') ''alice'' (Num 5) = Inr sampleLedger \<and>
   AddClient sampleLedger ''alice'' (Num 9) = Inl (AlreadyExists ''alice'') \<and>
   execute sampleLedger (''org2MSP'', TxAddClient ''alice'' (Num 9)) = sampleLedger \<and>
   GetTokens sampleLedger ''alice'' = Inr (Num 5)"
  using AddClient_twice_AlreadyExists [OF sampleLedger_added, of "Num 9" "''org2MSP''"]
    sampleLedger_added
  by simp

text \<open>
  C9: for every existing account \<open>id\<close> and every non-negative integer \<open>v\<close>,
  \<open>PutTokens(id, v)\<close> succeeds and \<open>GetTokens(id)\<close> on the context it leaves returns \<open>v\<close>.
\<close>

theorem PutTokens_GetTokens_roundtrip:
  "ClientExists ctx id' \<Longrightarrow> 0 \<le> v \<Longrightarrow>
     (\<exists>ctx'. PutTokens ctx id' (Num v) = Inr ctx' \<and> GetTokens ctx' id' = Inr (Num v))"
  using PutTokens_Inr [of ctx id' "Num v"] GetTokens_after_PutTokens [of ctx id' "Num v"]
  by simp

theorem PutTokens_GetTokens_roundtrip_witness:
  "ClientExists sampleLedger ''alice'' \<and> (0::int) \<le> 7 \<and>
   (\<exists>ctx'. PutTokens sampleLedger ''alice'' (Num 7) = Inr ctx' \<and> GetTokens ctx' ''alice'' = Inr (Num 7))"
proof -
  have ex: "ClientExists sampleLedger ''alice''" by code_simp
  from PutTokens_GetTokens_roundtrip [OF ex, of 7] ex show ?thesis by simp
qed

section \<open>The retry protocol\<close>

lemma submitWithRetry_unfold:
  "submitWithRetry f g =
     (if fst (f g) = Inl (CommitError MVCC_READ_CONFLICT) then f (snd (f g)) else f g)"
proof -
  have exhausted: "submitWithRetry_loop f n e s = (Inl e, s)" if "RETRIES \<le> n" for n e s
    using that by (subst submitWithRetry_loop.simps) simp
  have second: "submitWithRetry_loop f n e s = f s" if "n = 1" for n e s
    using that by (subst submitWithRetry_loop.simps)
      (auto simp: RETRIES_def exhausted split: prod.splits sum.splits thrown.splits)
  show ?thesis
    unfolding submitWithRetry_def
    by (subst submitWithRetry_loop.simps)
      (auto simp: RETRIES_def second split: prod.splits sum.splits thrown.splits)
qed

lemma counted_simps:
  "fst (counted f s) = fst (f (fst s))"
  "fst (snd (counted f s)) = snd (f (fst s))"
  "snd (snd (counted f s)) = snd s + 1"
  by (simp_all add: counted_def)

lemma conflicting_simps:
  "submit (conflicting k) name args n = (if n < k then Inl (CommitError MVCC_READ_CONFLICT) else Inr [], n + 1)"
  "evaluate (conflicting k) name args n = (Inr ''true'', n)"
  by (simp_all add: conflicting_def)

text \<open>
  C4: a submission wrapped by \<open>submitWithRetry\<close> makes at most 2 attempts. An attempt
  that succeeds returns its result at once. A first attempt that fails with a commit
  error of code \<open>MVCC_READ_CONFLICT\<close> is followed by a second attempt, whose outcome is
  the outcome of the call: its result if it succeeds, its error (the last one) unchanged
  if it fails. A first attempt that fails in any other way ends the call with that error.
  The attempts are counted by \<open>counted\<close>.
\<close>

theorem submitWithRetry_protocol:
  "(fst (f g) = Inr v \<longrightarrow> submitWithRetry f g = (Inr v, snd (f g))) \<and>
   (fst (f g) = Inl e \<and> e \<noteq> CommitError MVCC_READ_CONFLICT \<longrightarrow>
      submitWithRetry f g = (Inl e, snd (f g))) \<and>
   (fst (f g) = Inl (CommitError MVCC_READ_CONFLICT) \<longrightarrow>
      submitWithRetry f g = f (snd (f g))) \<and>
   snd (snd (submitWithRetry (counted f) (g, 0))) =
      (if fst (f g) = Inl (CommitError MVCC_READ_CONFLICT) then 2 else 1) \<and>
   snd (snd (submitWithRetry (counted f) (g, 0))) \<le> RETRIES"
proof -
  have n: "snd (snd (submitWithRetry (counted f) (g, 0))) =
      (if fst (f g) = Inl (CommitError MVCC_READ_CONFLICT) then 2 else 1)"
    by (simp add: submitWithRetry_unfold counted_simps)
  have a: "fst (f g) = Inr v \<longrightarrow> submitWithRetry f g = (Inr v, snd (f g))"
    by (cases "f g") (auto simp: submitWithRetry_unfold)
  have b: "fst (f g) = Inl e \<and> e \<noteq> CommitError MVCC_READ_CONFLICT \<longrightarrow>
      submitWithRetry f g = (Inl e, snd (f g))"
    by (cases "f g") (auto simp: submitWithRetry_unfold)
  have c: "fst (f g) = Inl (CommitError MVCC_READ_CONFLICT) \<longrightarrow>
      submitWithRetry f g = f (snd (f g))"
    by (simp add: submitWithRetry_unfold)
  from n have "snd (snd (submitWithRetry (counted f) (g, 0))) \<le> RETRIES"
    by (simp add: RETRIES_def)
  with n a b c show ?thesis by blast
qed

theorem submitWithRetry_protocol_witness:
  "submitWithRetry (submit (conflicting 0) ''PutTokens'' [''7'']) 0 = (Inr [], 1) \<and>
   submitWithRetry (submit (conflicting 1) ''PutTokens'' [''7'']) 0 = (Inr [], 2) \<and>
   submitWithRetry (submit (conflicting 2) ''PutTokens'' [''7'']) 0 = (Inl (CommitError MVCC_READ_CONFLICT), 2) \<and>
   submitWithRetry (\<lambda>n::nat. (Inl (OtherError ''timeout'') :: thrown + string, n + 1)) 0 = (Inl (OtherError ''timeout''), 1)"
proof -
  let ?f = "\<lambda>k. submit (conflicting k) ''PutTokens'' [''7'']"
  let ?t = "\<lambda>n::nat. (Inl (OtherError ''timeout'') :: thrown + string, n + 1)"
  from submitWithRetry_protocol [of "?f 0" 0 "[]"]
    submitWithRetry_protocol [of "?f 1" 0]
    submitWithRetry_protocol [of "?f 2" 0]
    submitWithRetry_protocol [of ?t 0 "[]" "OtherError ''timeout''"]
  show ?thesis by (simp add: conflicting_simps)
qed

section \<open>Which submissions are retried\<close>

lemma counting_simps:
  "fst (submit (counting c) name args s) = fst (submit c name args (network s))"
  "network (snd (submit (counting c) name args s)) = snd (submit c name args (network s))"
  "submissions (snd (submit (counting c) name args s)) = submissions s + 1"
  "evaluations (snd (submit (counting c) name args s)) = evaluations s"
  "fst (evaluate (counting c) name args s) = fst (evaluate c name args (network s))"
  "network (snd (evaluate (counting c) name args s)) = snd (evaluate c name args (network s))"
  "submissions (snd (evaluate (counting c) name args s)) = submissions s"
  "evaluations (snd (evaluate (counting c) name args s)) = evaluations s + 1"
  by (simp_all add: counting_def)

lemma snd_void: "snd (void outcome) = snd outcome"
  by (simp add: void_def split: prod.splits sum.splits)

lemma fst_void: "fst (void outcome) = map_sum (\<lambda>err. err) (\<lambda>result. ()) (fst outcome)"
  by (simp add: void_def split: prod.splits sum.splits)

lemma snd_getTokens:
  "snd (getTokens this JSON_parse g) = snd (evaluate (contract this) ''GetTokens'' [] g)"
  by (simp add: getTokens_def split: prod.splits sum.splits)

lemma snd_getAllTokens:
  "snd (getAllTokens this JSON_parse g) = snd (evaluate (contract this) ''GetAllTokens'' [] g)"
  by (simp add: getAllTokens_def split: prod.splits sum.splits)

lemma snd_clientExists:
  "snd (clientExists this g) = snd (evaluate (contract this) ''ClientExists'' [] g)"
  by (simp add: clientExists_def split: prod.splits sum.splits)

lemma fst_submitWithRetry_counting:
  "fst (submitWithRetry (submit (counting c) name args) s) =
     fst (submitWithRetry (submit c name args) (network s))"
  by (simp add: submitWithRetry_unfold counting_simps)

lemma submissions_retried:
  "submissions (snd (submitWithRetry (submit (counting c) name args) s)) =
     submissions s +
       (if fst (submit c name args (network s)) = Inl (CommitError MVCC_READ_CONFLICT) then 2 else 1)"
  by (simp add: submitWithRetry_unfold counting_simps)

text \<open>
  C2, as amended: of the submissions of the client, those of \<open>PutTokens\<close> and
  \<open>DeleteClient\<close> go through the retry wrapper (two submissions when the first one
  meets a read conflict, one otherwise); \<open>AddClient\<close>, \<open>ContributeResource\<close> and
  \<open>ConsumeResource\<close> are submitted exactly once and the outcome of that submission is
  the outcome of the call; \<open>GetTokens\<close>, \<open>ClientExists\<close> and \<open>GetAllTokens\<close> make one
  evaluation and no submission. The calls are counted on any contract \<open>c\<close> by
  \<open>counting c\<close>.
\<close>

theorem retry_scope:
  "submissions (snd (putTokens \<lparr>contract = counting c\<rparr> newAmount s)) =
     submissions s +
       (if fst (submit c ''PutTokens'' [toString newAmount] (network s))
             = Inl (CommitError MVCC_READ_CONFLICT) then 2 else 1) \<and>
   fst (putTokens \<lparr>contract = counting c\<rparr> newAmount s) =
     fst (void (submitWithRetry (submit c ''PutTokens'' [toString newAmount]) (network s))) \<and>
   submissions (snd (deleteClient \<lparr>contract = counting c\<rparr> s)) =
     submissions s +
       (if fst (submit c ''DeleteClient'' [] (network s))
             = Inl (CommitError MVCC_READ_CONFLICT) then 2 else 1) \<and>
   fst (deleteClient \<lparr>contract = counting c\<rparr> s) =
     fst (void (submitWithRetry (submit c ''DeleteClient'' []) (network s))) \<and>
   submissions (snd (addClient \<lparr>contract = counting c\<rparr> initAmount s)) = submissions s + 1 \<and>
   fst (addClient \<lparr>contract = counting c\<rparr> initAmount s) =
     fst (void (submit c ''AddClient'' [toString initAmount] (network s))) \<and>
   submissions (snd (contributeResource \<lparr>contract = counting c\<rparr> data s)) = submissions s + 1 \<and>
   fst (contributeResource \<lparr>contract = counting c\<rparr> data s) =
     fst (void (submit c ''ContributeResource'' [data] (network s))) \<and>
   submissions (snd (consumeResource \<lparr>contract = counting c\<rparr> requiredLength s)) = submissions s + 1 \<and>
   fst (consumeResource \<lparr>contract = counting c\<rparr> requiredLength s) =
     fst (void (submit c ''ConsumeResource'' [toString requiredLength] (network s))) \<and>
   submissions (snd (getTokens \<lparr>contract = counting c\<rparr> parseNumber s)) = submissions s \<and>
   evaluations (snd (getTokens \<lparr>contract = counting c\<rparr> parseNumber s)) = evaluations s + 1 \<and>
   submissions (snd (clientExists \<lparr>contract = counting c\<rparr> s)) = submissions s \<and>
   evaluations (snd (clientExists \<lparr>contract = counting c\<rparr> s)) = evaluations s + 1 \<and>
   submissions (snd (getAllTokens \<lparr>contract = counting c\<rparr> parseAssets s)) = submissions s \<and>
   evaluations (snd (getAllTokens \<lparr>contract = counting c\<rparr> parseAssets s)) = evaluations s + 1"
  by (simp add: putTokens_def deleteClient_def addClient_def contributeResource_def
      consumeResource_def snd_void fst_void snd_getTokens snd_clientExists snd_getAllTokens
      submissions_retried fst_submitWithRetry_counting counting_simps)

theorem retry_scope_witness:
  "submissions (snd (putTokens \<lparr>contract = counting (conflicting 1)\<rparr> (Num 7)
      \<lparr>network = 0, submissions = 0, evaluations = 0\<rparr>)) = 2 \<and>
   submissions (snd (deleteClient \<lparr>contract = counting (conflicting 1)\<rparr>
      \<lparr>network = 0, submissions = 0, evaluations = 0\<rparr>)) = 2 \<and>
   submissions (snd (contributeResource \<lparr>contract = counting (conflicting 1)\<rparr> ''data''
      \<lparr>network = 0, submissions = 0, evaluations = 0\<rparr>)) = 1 \<and>
   fst (contributeResource \<lparr>contract = counting (conflicting 1)\<rparr> ''data''
      \<lparr>network = 0, submissions = 0, evaluations = 0\<rparr>) = Inl (CommitError MVCC_READ_CONFLICT) \<and>
   submissions (snd (consumeResource \<lparr>contract = counting (conflicting 1)\<rparr> (Num 41)
      \<lparr>network = 0, submissions = 0, evaluations = 0\<rparr>)) = 1 \<and>
   fst (consumeResource \<lparr>contract = counting (conflicting 1)\<rparr> (Num 41)
      \<lparr>network = 0, submissions = 0, evaluations = 0\<rparr>) = Inl (CommitError MVCC_READ_CONFLICT) \<and>
   submissions (snd (clientExists \<lparr>contract = counting (conflicting 1)\<rparr>
      \<lparr>network = 0, submissions = 0, evaluations = 0\<rparr>)) = 0 \<and>
   evaluations (snd (clientExists \<lparr>contract = counting (conflicting 1)\<rparr>
      \<lparr>network = 0, submissions = 0, evaluations = 0\<rparr>)) = 1"
  using retry_scope [where c = "conflicting 1" and newAmount = "Num 7"
      and s = "\<lparr>network = 0, submissions = 0, evaluations = 0\<rparr>"
      and initAmount = "Num 5" and data = "''data''" and requiredLength = "Num 41"
      and parseNumber = "\<lambda>bytes. Inr (Number bytes)" and parseAssets = "\<lambda>bytes. Inr []"]
  by (simp add: conflicting_simps fst_void submitWithRetry_unfold)

text \<open>
  The claim as stated fails: on a network whose first submission meets a read conflict
  and whose second would commit, \<open>contributeResource\<close> and \<open>consumeResource\<close> end
  with the conflict after one submission, while \<open>putTokens\<close> and \<open>deleteClient\<close>
  succeed with the second.
\<close>

theorem retry_scope_counterexample:
  "contributeResource \<lparr>contract = conflicting 1\<rparr> ''data'' 0 = (Inl (CommitError MVCC_READ_CONFLICT), 1) \<and>
   consumeResource \<lparr>contract = conflicting 1\<rparr> (Num 41) 0 = (Inl (CommitError MVCC_READ_CONFLICT), 1) \<and>
   putTokens \<lparr>contract = conflicting 1\<rparr> (Num 7) 0 = (Inr (), 2) \<and>
   deleteClient \<lparr>contract = conflicting 1\<rparr> 0 = (Inr (), 2)"
  by (simp add: contributeResource_def consumeResource_def putTokens_def deleteClient_def
      void_def submitWithRetry_unfold conflicting_simps)

end
